theory Spec2Isabelle
  imports Main "HOL-Library.Sublist"
begin

section \<open>Python values and exceptions\<close>

text \<open>
  The transport client of \<^verbatim>\<open>braintree/util/http.py\<close> is dynamically typed: the request
  parameters may be absent, a mapping, or an already serialised string; the request body
  may be a string, the parameters themselves, or a pair. These values are modelled by one
  datatype. A Python \<^verbatim>\<open>str\<close> or \<^verbatim>\<open>bytes\<close> is a \<^typ>\<open>string\<close>; a character with code
  above 127 is a non-ASCII character.
\<close>

datatype pyval =
    PyNone
  | PyStr string
  | PyDict "(string \<times> pyval) list"
  | PyTuple pyval pyval

text \<open>Python truthiness: \<^verbatim>\<open>None\<close>, the empty string and the empty mapping are false.\<close>

fun truthy :: "pyval \<Rightarrow> bool" where
  "truthy PyNone = False"
| "truthy (PyStr s) = (s \<noteq> [])"
| "truthy (PyDict d) = (d \<noteq> [])"
| "truthy (PyTuple a b) = True"

text \<open>
  The classes a raised value is tested against: \<^verbatim>\<open>Exception\<close>, which the \<^verbatim>\<open>except\<close>
  clause of \<^verbatim>\<open>_make_request\<close> names; the classes of \<^verbatim>\<open>requests.exceptions\<close> that
  \<^verbatim>\<open>handle_exception\<close> tests with \<^verbatim>\<open>isinstance\<close>; the built-in classes the model raises
  itself; and the classes that derive from \<^verbatim>\<open>BaseException\<close> without deriving from
  \<^verbatim>\<open>Exception\<close>, which are \<^verbatim>\<open>KeyboardInterrupt\<close>, \<^verbatim>\<open>SystemExit\<close>, \<^verbatim>\<open>GeneratorExit\<close>
  and classes a program defines so (\<open>OtherBaseClass\<close>). Every other class derives from
  \<^verbatim>\<open>Exception\<close>.
\<close>

datatype exc_class =
    Exception
  | ReadTimeout
  | ConnectTimeout
  | Requests_ConnectionError
  | HTTPError
  | Timeout
  | UnicodeEncodeError
  | UnboundLocalError
  | OtherClass string
  | KeyboardInterrupt
  | SystemExit
  | GeneratorExit
  | OtherBaseClass string

fun derives_Exception :: "exc_class \<Rightarrow> bool" where
  "derives_Exception KeyboardInterrupt = False"
| "derives_Exception SystemExit = False"
| "derives_Exception GeneratorExit = False"
| "derives_Exception (OtherBaseClass name) = False"
| "derives_Exception c = True"

text \<open>
  A value raised by the transport or by a library call is \<open>PyException cs msg\<close>:
  \<open>cs\<close> lists the classes above that its class is or inherits from (a class may inherit
  from several), \<open>msg\<close> is its text. The remaining constructors are the exception
  classes of \<^verbatim>\<open>braintree.exceptions\<close> with their constructor arguments; they derive from
  \<^verbatim>\<open>Exception\<close> and from none of the other classes.
\<close>

datatype exception =
    PyException "exc_class list" string
  | AuthenticationError
  | AuthorizationError "string option"
  | NotFoundError
  | RequestTimeoutError
  | UpgradeRequiredError
  | TooManyRequestsError
  | ServerError
  | ServiceUnavailableError
  | GatewayTimeoutError
  | UnexpectedError "string + exception"
  | ConnectionError exception
  | InvalidResponseError exception
  | ConnectTimeoutError exception
  | ReadTimeoutError exception
  | TimeoutError exception

fun isinstance :: "exception \<Rightarrow> exc_class \<Rightarrow> bool" where
  "isinstance (PyException cs msg) c =
     (c \<in> set cs \<or> (c = Exception \<and> list_ex derives_Exception cs))"
| "isinstance e c = (c = Exception)"

text \<open>
  A response body is \<^verbatim>\<open>bytes\<close> (\<^verbatim>\<open>response.content\<close>) or a \<^verbatim>\<open>str\<close>
  (\<^verbatim>\<open>response.text\<close>), a sequence of Unicode code points.
\<close>

datatype body = Bytes string | Text "nat list"

section \<open>String operations of Python used by the client\<close>

fun startswith :: "string \<Rightarrow> string \<Rightarrow> bool" where
  "startswith s [] = True"
| "startswith [] (p # ps) = False"
| "startswith (c # s) (p # ps) = (c = p \<and> startswith s ps)"

text \<open>The line feed, and the ASCII whitespace that \<^verbatim>\<open>bytes.strip()\<close> removes:
  space, tab, line feed, carriage return, vertical tab, form feed.\<close>

definition newline :: char where
  "newline = CHR 0x0A"

definition isspace :: "char \<Rightarrow> bool" where
  "isspace c = (c \<in> set [CHR 0x20, CHR 0x09, CHR 0x0A, CHR 0x0D, CHR 0x0B, CHR 0x0C])"

definition lstrip :: "string \<Rightarrow> string" where
  "lstrip s = dropWhile isspace s"

definition rstrip :: "string \<Rightarrow> string" where
  "rstrip s = rev (dropWhile isspace (rev s))"

text \<open>\<^verbatim>\<open>s.strip()\<close> on \<^verbatim>\<open>bytes\<close> removes ASCII whitespace at both ends.\<close>

definition strip :: "string \<Rightarrow> string" where
  "strip s = rstrip (lstrip s)"

text \<open>
  \<^verbatim>\<open>s.strip()\<close> on a \<^verbatim>\<open>str\<close> removes at both ends the characters that the Unicode
  database of the interpreter counts as whitespace; \<open>sp\<close> is that test on code points.
  It depends on the version of Python.
\<close>

definition str_strip :: "(nat \<Rightarrow> bool) \<Rightarrow> nat list \<Rightarrow> nat list" where
  "str_strip sp s = rev (dropWhile sp (rev (dropWhile sp s)))"

text \<open>\<^verbatim>\<open>body.strip()\<close> and \<^verbatim>\<open>len(body)\<close> on a response body of either kind.\<close>

fun body_strip :: "(nat \<Rightarrow> bool) \<Rightarrow> body \<Rightarrow> body" where
  "body_strip sp (Bytes s) = Bytes (strip s)"
| "body_strip sp (Text t) = Text (str_strip sp t)"

fun body_len :: "body \<Rightarrow> nat" where
  "body_len (Bytes s) = length s"
| "body_len (Text t) = length t"

text \<open>\<^verbatim>\<open>s.replace(old, new)\<close> for a one-character \<^verbatim>\<open>old\<close>.\<close>

definition replace :: "string \<Rightarrow> char \<Rightarrow> string \<Rightarrow> string" where
  "replace s old new = concat (map (\<lambda>c. if c = old then new else [c]) s)"

text \<open>\<^verbatim>\<open>s.encode('ascii')\<close> raises \<^verbatim>\<open>UnicodeEncodeError\<close> on a character above 127.\<close>

definition is_ascii :: "string \<Rightarrow> bool" where
  "is_ascii s = list_all (\<lambda>c. (of_char c :: nat) < 128) s"

definition encode_ascii :: "string \<Rightarrow> exception + string" where
  "encode_ascii s =
     (if is_ascii s then Inr s else Inl (PyException [UnicodeEncodeError] s))"

text \<open>\<^verbatim>\<open>str(n)\<close> for an integer: its decimal digits, with a minus sign when negative.\<close>

function str_nat :: "nat \<Rightarrow> string" where
  "str_nat n =
     (if n < 10 then [char_of (48 + n)]
      else str_nat (n div 10) @ [char_of (48 + n mod 10)])"
  by pat_completeness auto
termination
  by (relation "measure (\<lambda>n. n)") auto

declare str_nat.simps [simp del]

definition str :: "int \<Rightarrow> string" where
  "str i = (if i < 0 then CHR ''-'' # str_nat (nat (- i)) else str_nat (nat i))"

subsection \<open>Base64 as \<^verbatim>\<open>base64.encodebytes\<close> computes it\<close>

text \<open>
  The standard alphabet, three bytes to four characters, \<^verbatim>\<open>=\<close> padding.
  \<^verbatim>\<open>encodebytes\<close> encodes the input in pieces of 57 bytes and ends each piece with a
  line feed, which is why the client removes line feeds afterwards.
\<close>

definition b64_char :: "nat \<Rightarrow> char" where
  "b64_char n =
     (if n < 26 then char_of (65 + n)
      else if n < 52 then char_of (71 + n)
      else if n < 62 then char_of (n - 4)
      else if n = 62 then CHR ''+''
      else CHR ''/'')"

fun b64encode :: "string \<Rightarrow> string" where
  "b64encode [] = []"
| "b64encode [a] =
     (let n = of_char a * 65536
      in [b64_char (n div 262144), b64_char (n div 4096 mod 64), CHR ''='', CHR ''=''])"
| "b64encode [a, b] =
     (let n = of_char a * 65536 + of_char b * 256
      in [b64_char (n div 262144), b64_char (n div 4096 mod 64),
          b64_char (n div 64 mod 64), CHR ''=''])"
| "b64encode (a # b # c # rest) =
     (let n = of_char a * 65536 + of_char b * 256 + of_char c
      in [b64_char (n div 262144), b64_char (n div 4096 mod 64),
          b64_char (n div 64 mod 64), b64_char (n mod 64)] @ b64encode rest)"

function encodebytes :: "string \<Rightarrow> string" where
  "encodebytes s =
     (if s = [] then []
      else b64encode (take 57 s) @ [newline] @ encodebytes (drop 57 s))"
  by pat_completeness auto
termination
  by (relation "measure length") auto

declare encodebytes.simps [simp del]

section \<open>Configuration\<close>

text \<open>
  The \<^verbatim>\<open>Configuration\<close> class lives in \<^verbatim>\<open>braintree.configuration\<close>; the client only
  reads it. The record holds the attributes the client reads and the results of the methods it
  calls (\<^verbatim>\<open>base_url()\<close>, \<^verbatim>\<open>graphql_base_url()\<close>, \<^verbatim>\<open>has_client_credentials()\<close>,
  \<^verbatim>\<open>has_access_token()\<close>). The type \<open>'env\<close> is the type of environments.
\<close>

record 'env config =
  environment :: 'env
  wrap_http_exceptions :: bool
  timeout :: nat
  base_url :: string
  graphql_base_url :: string
  has_client_credentials :: bool
  has_access_token :: bool
  client_id :: string
  client_secret :: string
  access_token :: string
  public_key :: string
  private_key :: string

section \<open>The transport client\<close>

text \<open>\<^verbatim>\<open>Http.__init__\<close>: \<^verbatim>\<open>self.environment = environment or self.config.environment\<close>.
  An environment object is truthy, so the second operand is taken exactly when no
  environment is passed.\<close>

record 'env http =
  self_config :: "'env config"
  self_environment :: 'env

definition Http :: "'env config \<Rightarrow> 'env option \<Rightarrow> 'env http" where
  "Http cfg env =
     \<lparr> self_config = cfg,
       self_environment = (case env of None \<Rightarrow> environment cfg | Some e \<Rightarrow> e) \<rparr>"

text \<open>\<^verbatim>\<open>Http.__full_path\<close>.\<close>

definition full_path :: "'env http \<Rightarrow> string \<Rightarrow> string" where
  "full_path self path =
     (if startswith path (base_url (self_config self))
         \<or> startswith path (graphql_base_url (self_config self))
      then path
      else base_url (self_config self) @ path)"

text \<open>The constants of \<^verbatim>\<open>Http.ContentType\<close>. A content type is a string.\<close>

definition ContentType_Xml :: string where
  "ContentType_Xml = ''application/xml''"

definition ContentType_Multipart :: string where
  "ContentType_Multipart = ''multipart/form-data''"

definition ContentType_Json :: string where
  "ContentType_Json = ''application/json''"

text \<open>\<^verbatim>\<open>Http.is_error_status\<close>.\<close>

definition is_error_status :: "int \<Rightarrow> bool" where
  "is_error_status status = (status \<notin> set [200, 201, 204, 422])"

text \<open>
  \<^verbatim>\<open>Http.raise_exception_from_status\<close>. A Python function either raises (\<open>Inl\<close>) or
  returns (\<open>Inr\<close>); this one has no \<^verbatim>\<open>return\<close>, so its normal result would be the unit.
\<close>

definition raise_exception_from_status :: "int \<Rightarrow> string option \<Rightarrow> exception + unit" where
  "raise_exception_from_status status message =
     (if status = 401 then Inl AuthenticationError
      else if status = 403 then Inl (AuthorizationError message)
      else if status = 404 then Inl NotFoundError
      else if status = 408 then Inl RequestTimeoutError
      else if status = 426 then Inl UpgradeRequiredError
      else if status = 429 then Inl TooManyRequestsError
      else if status = 500 then Inl ServerError
      else if status = 503 then Inl ServiceUnavailableError
      else if status = 504 then Inl GatewayTimeoutError
      else Inl (UnexpectedError (Inl (''Unexpected HTTP_RESPONSE '' @ str status))))"

text \<open>\<^verbatim>\<open>Http.handle_exception\<close>.\<close>

definition handle_exception :: "exception \<Rightarrow> exception + unit" where
  "handle_exception exception =
     (if isinstance exception ReadTimeout then Inl (ReadTimeoutError exception)
      else if isinstance exception ConnectTimeout then Inl (ConnectTimeoutError exception)
      else if isinstance exception Requests_ConnectionError then Inl (ConnectionError exception)
      else if isinstance exception HTTPError then Inl (InvalidResponseError exception)
      else if isinstance exception Timeout then Inl (TimeoutError exception)
      else Inl (UnexpectedError (Inr exception)))"

text \<open>\<^verbatim>\<open>Http.__authorization_header\<close>. The method calls \<^verbatim>\<open>replace\<close> and \<^verbatim>\<open>strip\<close> bind to the
  result of \<^verbatim>\<open>encodebytes\<close>, before the prefix is added.\<close>

definition authorization_header :: "'env http \<Rightarrow> exception + string" where
  "authorization_header self =
     (if has_client_credentials (self_config self) then
        (case encode_ascii (client_id (self_config self)) of
           Inl e \<Rightarrow> Inl e
         | Inr cid \<Rightarrow>
        (case encode_ascii (client_secret (self_config self)) of
           Inl e \<Rightarrow> Inl e
         | Inr secret \<Rightarrow>
             Inr (''Basic '' @ strip (replace (encodebytes (cid @ '':'' @ secret)) newline []))))
      else if has_access_token (self_config self) then
        (case encode_ascii (access_token (self_config self)) of
           Inl e \<Rightarrow> Inl e
         | Inr token \<Rightarrow> Inr (''Bearer '' @ token))
      else
        (case encode_ascii (public_key (self_config self)) of
           Inl e \<Rightarrow> Inl e
         | Inr pub \<Rightarrow>
        (case encode_ascii (private_key (self_config self)) of
           Inl e \<Rightarrow> Inl e
         | Inr priv \<Rightarrow>
             Inr (''Basic '' @ strip (replace (encodebytes (pub @ '':'' @ priv)) newline [])))))"

text \<open>
  What the client takes from other modules and from the interpreter, as parameters of the
  model: the XML serialiser and parser of \<^verbatim>\<open>XmlUtil\<close>, \<^verbatim>\<open>json.loads\<close>, the library
  version, the API version, and the whitespace test of the Unicode database. The parsers
  and the serialiser may raise.
\<close>

record externals =
  xml_from_dict :: "pyval \<Rightarrow> exception + string"
  dict_from_xml :: "body \<Rightarrow> exception + pyval"
  json_loads :: "body \<Rightarrow> exception + pyval"
  version_Version :: string
  api_version :: string
  unicode_isspace :: "nat \<Rightarrow> bool"

text \<open>\<^verbatim>\<open>Http.__headers\<close>. The header dictionary is a map; \<^verbatim>\<open>header_overrides or {}\<close> is the
  empty map when no overrides are passed.\<close>

definition headers ::
  "externals \<Rightarrow> 'env http \<Rightarrow> string \<Rightarrow> (string \<rightharpoonup> string) option
     \<Rightarrow> exception + (string \<rightharpoonup> string)" where
  "headers ext self content_type header_overrides =
     (case authorization_header self of
        Inl e \<Rightarrow> Inl e
      | Inr auth \<Rightarrow>
          (let hs = [''Accept'' \<mapsto> ''application/xml'',
                     ''Authorization'' \<mapsto> auth,
                     ''User-Agent'' \<mapsto> ''Braintree Python '' @ version_Version ext,
                     ''Accept-Encoding'' \<mapsto> ''gzip'',
                     ''X-ApiVersion'' \<mapsto> api_version ext];
               hs' = (if content_type = ContentType_Xml
                      then hs(''Content-type'' \<mapsto> ContentType_Xml) else hs)
           in Inr (hs' ++ (case header_overrides of None \<Rightarrow> Map.empty | Some m \<Rightarrow> m))))"

text \<open>\<^verbatim>\<open>Http.__request_body\<close>. Absent files are \<^verbatim>\<open>None\<close>.\<close>

definition request_body :: "externals \<Rightarrow> string \<Rightarrow> pyval \<Rightarrow> pyval \<Rightarrow> exception + pyval" where
  "request_body ext content_type params files =
     (if content_type = ContentType_Xml then
        (if truthy params then
           (case xml_from_dict ext params of Inl e \<Rightarrow> Inl e | Inr x \<Rightarrow> Inr (PyStr x))
         else Inr (PyStr []))
      else if files = PyNone then Inr params
      else Inr (PyTuple params files))"

text \<open>
  The object that \<^verbatim>\<open>self.config.http_strategy()\<close> returns: its \<^verbatim>\<open>http_do\<close>, which
  returns the status and the response body or raises, and its \<^verbatim>\<open>handle_exception\<close>.
\<close>

record strategy =
  strategy_http_do ::
    "string \<Rightarrow> string \<Rightarrow> (string \<rightharpoonup> string) \<Rightarrow> pyval \<Rightarrow> exception + (int \<times> body)"
  strategy_handle_exception :: "exception \<Rightarrow> exception + unit"

text \<open>
  \<^verbatim>\<open>Http._make_request\<close>. The \<^verbatim>\<open>try\<close> statement either binds \<^verbatim>\<open>status\<close> and
  \<^verbatim>\<open>response_body\<close> (\<open>Some\<close>), or raises, or, when the handler returns, leaves them
  unbound (\<open>None\<close>): reading \<^verbatim>\<open>status\<close> then raises \<^verbatim>\<open>UnboundLocalError\<close>. The clause
  \<^verbatim>\<open>except Exception\<close> catches the instances of \<^verbatim>\<open>Exception\<close> only; any other raised
  value leaves the function as it is. A function that ends without \<^verbatim>\<open>return\<close> returns
  \<^verbatim>\<open>None\<close>.
\<close>

definition make_request ::
  "externals \<Rightarrow> strategy \<Rightarrow> 'env http \<Rightarrow> string \<Rightarrow> string \<Rightarrow> string \<Rightarrow> pyval \<Rightarrow> pyval
     \<Rightarrow> (string \<rightharpoonup> string) option \<Rightarrow> exception + pyval" where
  "make_request ext http_strategy self http_verb path content_type params files header_overrides =
     (case headers ext self content_type header_overrides of
        Inl e \<Rightarrow> Inl e
      | Inr hs \<Rightarrow>
     (case request_body ext content_type params files of
        Inl e \<Rightarrow> Inl e
      | Inr body \<Rightarrow>
     (case (case strategy_http_do http_strategy http_verb (full_path self path) hs body of
              Inr r \<Rightarrow> Inr (Some r)
            | Inl e \<Rightarrow>
                if isinstance e Exception then
                  (if wrap_http_exceptions (self_config self) then
                     (case strategy_handle_exception http_strategy e of
                        Inl e' \<Rightarrow> Inl e'
                      | Inr u \<Rightarrow> Inr None)
                   else Inl e)
                else Inl e) of
        Inl e \<Rightarrow> Inl e
      | Inr None \<Rightarrow> Inl (PyException [UnboundLocalError] ''status'')
      | Inr (Some (status, response_body)) \<Rightarrow>
          if is_error_status status then
            (case raise_exception_from_status status None of
               Inl e \<Rightarrow> Inl e
             | Inr u \<Rightarrow> Inr PyNone)
          else if body_len (body_strip (unicode_isspace ext) response_body) = 0
          then Inr (PyDict [])
          else if content_type = ContentType_Json then json_loads ext response_body
          else dict_from_xml ext response_body)))"

text \<open>
  \<^verbatim>\<open>Http.http_do\<close>. The \<^verbatim>\<open>Environment\<close> class and the \<^verbatim>\<open>requests\<close> library are
  parameters of the model: \<open>Development\<close> is the constant \<^verbatim>\<open>Environment.Development\<close>,
  \<open>ssl_certificate\<close> reads the attribute of that name of an environment, \<open>send\<close> is
  \<^verbatim>\<open>session.send\<close> on the prepared request with its \<^verbatim>\<open>verify\<close> and \<^verbatim>\<open>timeout\<close>
  arguments, and \<open>version_info\<close> is \<^verbatim>\<open>(sys.version_info.major, sys.version_info.minor)\<close>.
\<close>

datatype 'c verify = Verify_False | Verify_With 'c

record 'c send_args =
  req_method :: string
  req_url :: string
  req_headers :: "string \<rightharpoonup> string"
  req_data :: pyval
  req_files :: pyval
  req_verify :: "'c verify"
  req_timeout :: nat

record response =
  status_code :: int
  content :: string
  text_of :: "nat list"

record ('env, 'c) transport =
  Development :: 'env
  ssl_certificate :: "'env \<Rightarrow> 'c"
  send :: "'c send_args \<Rightarrow> exception + response"
  version_info :: "nat \<times> nat"

text \<open>The request that \<^verbatim>\<open>http_do\<close> hands to \<^verbatim>\<open>session.send\<close>.\<close>

definition http_do_args ::
  "('env, 'c) transport \<Rightarrow> 'env http \<Rightarrow> string \<Rightarrow> string \<Rightarrow> (string \<rightharpoonup> string) \<Rightarrow> pyval
     \<Rightarrow> 'c send_args" where
  "http_do_args tr self http_verb path hs body =
     (let data = (case body of PyTuple a b \<Rightarrow> a | _ \<Rightarrow> body);
          files = (case body of PyTuple a b \<Rightarrow> b | _ \<Rightarrow> PyNone);
          verify = (if environment (self_config self) = Development tr then Verify_False
                    else Verify_With (ssl_certificate tr (self_environment self)))
      in \<lparr> req_method = http_verb,
           req_url = full_path self path,
           req_headers = hs,
           req_data = data,
           req_files = files,
           req_verify = verify,
           req_timeout = timeout (self_config self) \<rparr>)"

definition http_do ::
  "('env, 'c) transport \<Rightarrow> 'env http \<Rightarrow> string \<Rightarrow> string \<Rightarrow> (string \<rightharpoonup> string) \<Rightarrow> pyval
     \<Rightarrow> exception + (int \<times> body)" where
  "http_do tr self http_verb path hs body =
     (case send tr (http_do_args tr self http_verb path hs body) of
        Inl e \<Rightarrow> Inl e
      | Inr r \<Rightarrow>
          if fst (version_info tr) = 3 \<and> snd (version_info tr) > 5
          then Inr (status_code r, Bytes (content r))
          else Inr (status_code r, Text (text_of r)))"

text \<open>An \<^verbatim>\<open>Http\<close> object used as the strategy of its configuration.\<close>

definition Http_strategy :: "('env, 'c) transport \<Rightarrow> 'env http \<Rightarrow> strategy" where
  "Http_strategy tr h =
     \<lparr> strategy_http_do = http_do tr h,
       strategy_handle_exception = handle_exception \<rparr>"

section \<open>Business details of a sub-merchant account\<close>

text \<open>
  \<^verbatim>\<open>BusinessDetails.__init__\<close>. An object is the map from its attribute names to their
  values; an attribute holds a plain value or an \<^verbatim>\<open>AddressDetails\<close> instance. The base
  class \<^verbatim>\<open>AttributeGetter\<close> and the class \<^verbatim>\<open>AddressDetails\<close> live in other modules and
  are parameters: \<open>AttributeGetter_init\<close> is the base initialiser, acting on the
  attributes of the new object, and \<open>AddressDetails\<close> is the constructor.
\<close>

datatype 'a attr = Plain pyval | Instance 'a

text \<open>\<^verbatim>\<open>d.get(key, default)\<close> on a dictionary given as an association list.\<close>

definition dict_get :: "(string \<times> pyval) list \<Rightarrow> string \<Rightarrow> pyval \<Rightarrow> pyval" where
  "dict_get d key dflt = (case map_of d key of None \<Rightarrow> dflt | Some v \<Rightarrow> v)"

definition BusinessDetails_init ::
  "((string \<times> pyval) list \<Rightarrow> (string \<rightharpoonup> 'a attr) \<Rightarrow> (string \<rightharpoonup> 'a attr)) \<Rightarrow> (pyval \<Rightarrow> 'a)
     \<Rightarrow> (string \<times> pyval) list \<Rightarrow> (string \<rightharpoonup> 'a attr)" where
  "BusinessDetails_init AttributeGetter_init AddressDetails attributes =
     (AttributeGetter_init attributes Map.empty)
       (''address_details'' \<mapsto> Instance (AddressDetails (dict_get attributes ''address'' (PyDict []))))"

section \<open>Concrete inputs\<close>

text \<open>
  The inputs at which the theorems below are evaluated. Environments are named by strings;
  the parsers of \<open>example_externals\<close> only tag the body they are given, which shows which
  of them was called; \<open>unicode_whitespace\<close> is the whitespace of the Unicode database of
  Python 3.11.
\<close>

definition unicode_whitespace :: "nat \<Rightarrow> bool" where
  "unicode_whitespace n =
     (n \<in> set [0x09, 0x0A, 0x0B, 0x0C, 0x0D, 0x1C, 0x1D, 0x1E, 0x1F, 0x20, 0x85, 0xA0, 0x1680,
        0x2000, 0x2001, 0x2002, 0x2003, 0x2004, 0x2005, 0x2006, 0x2007, 0x2008, 0x2009,
        0x200A, 0x2028, 0x2029, 0x202F, 0x205F, 0x3000])"

definition example_config :: "string config" where
  "example_config =
     \<lparr> environment = ''sandbox'',
       wrap_http_exceptions = True,
       timeout = 60,
       base_url = ''https://api.sandbox.braintreegateway.com:443'',
       graphql_base_url = ''https://payments.sandbox.braintree-api.com/graphql'',
       has_client_credentials = False,
       has_access_token = False,
       client_id = [],
       client_secret = [],
       access_token = [],
       public_key = ''public'',
       private_key = ''private'' \<rparr>"

definition example_externals :: externals where
  "example_externals =
     \<lparr> xml_from_dict = (\<lambda>v. Inr ''<params/>''),
       dict_from_xml =
         (\<lambda>b. Inr (PyDict [(''xml'', PyStr (case b of Bytes s \<Rightarrow> s | Text t \<Rightarrow> []))])),
       json_loads =
         (\<lambda>b. Inr (PyDict [(''json'', PyStr (case b of Bytes s \<Rightarrow> s | Text t \<Rightarrow> []))])),
       version_Version = ''4.0.0'',
       api_version = ''6'',
       unicode_isspace = unicode_whitespace \<rparr>"

text \<open>A strategy whose \<^verbatim>\<open>http_do\<close> has the given outcome for every request, with the
  handler of \<^verbatim>\<open>Http\<close>.\<close>

definition fixed_strategy :: "exception + (int \<times> body) \<Rightarrow> strategy" where
  "fixed_strategy outcome =
     \<lparr> strategy_http_do = (\<lambda>http_verb path hs body. outcome),
       strategy_handle_exception = handle_exception \<rparr>"

text \<open>A strategy whose handler returns instead of raising.\<close>

definition silent_strategy :: "exception \<Rightarrow> strategy" where
  "silent_strategy e =
     \<lparr> strategy_http_do = (\<lambda>http_verb path hs body. Inl e),
       strategy_handle_exception = (\<lambda>e. Inr ()) \<rparr>"

definition example_transport :: "(string, string) transport" where
  "example_transport =
     \<lparr> Development = ''development'',
       ssl_certificate = (\<lambda>e. e @ ''.crt''),
       send = (\<lambda>args. Inr \<lparr> status_code = 200, content = [], text_of = [] \<rparr>),
       version_info = (3, 11) \<rparr>"

text \<open>A base initialiser that sets every item of the attributes on the object.\<close>

definition copy_attributes ::
  "(string \<times> pyval) list \<Rightarrow> (string \<rightharpoonup> 'a attr) \<Rightarrow> (string \<rightharpoonup> 'a attr)" where
  "copy_attributes attributes obj = obj ++ map_of (map (\<lambda>(k, v). (k, Plain v)) attributes)"

section \<open>Properties\<close>

lemma startswith_prefix: "startswith s p = prefix p s"
  by (induction s p rule: startswith.induct) auto

text \<open>
  Claim C6. For every path string, the full request URL is the path itself when the path
  starts with the configured base URL or with the configured GraphQL base URL, and the
  base URL followed by the path otherwise.
\<close>

theorem full_path_resolution:
  "full_path self path =
     (if prefix (base_url (self_config self)) path
         \<or> prefix (graphql_base_url (self_config self)) path
      then path
      else base_url (self_config self) @ path)"
  by (simp add: full_path_def startswith_prefix)

subsection \<open>Strings\<close>

lemma replace_newline_filter: "replace s c [] = filter (\<lambda>x. x \<noteq> c) s"
  by (induction s) (simp_all add: replace_def)

lemma strip_empty_iff: "strip s = [] \<longleftrightarrow> (\<forall>c\<in>set s. isspace c)"
proof
  assume "strip s = []"
  then have a: "\<forall>c\<in>set (dropWhile isspace s). isspace c"
    by (simp add: strip_def rstrip_def lstrip_def dropWhile_eq_Nil_conv)
  have "dropWhile isspace s = []"
  proof (rule ccontr)
    assume ne: "dropWhile isspace s \<noteq> []"
    then have "\<not> isspace (hd (dropWhile isspace s))"
      by (rule hd_dropWhile)
    moreover from ne have "hd (dropWhile isspace s) \<in> set (dropWhile isspace s)"
      by simp
    ultimately show False
      using a by blast
  qed
  then show "\<forall>c\<in>set s. isspace c"
    by (simp add: dropWhile_eq_Nil_conv)
next
  assume "\<forall>c\<in>set s. isspace c"
  then show "strip s = []"
    by (auto simp: strip_def rstrip_def lstrip_def dest: set_dropWhileD)
qed

lemma str_strip_empty_iff: "str_strip sp s = [] \<longleftrightarrow> (\<forall>c\<in>set s. sp c)"
proof
  assume "str_strip sp s = []"
  then have a: "\<forall>c\<in>set (dropWhile sp s). sp c"
    by (simp add: str_strip_def dropWhile_eq_Nil_conv)
  have "dropWhile sp s = []"
  proof (rule ccontr)
    assume ne: "dropWhile sp s \<noteq> []"
    then have "\<not> sp (hd (dropWhile sp s))"
      by (rule hd_dropWhile)
    moreover from ne have "hd (dropWhile sp s) \<in> set (dropWhile sp s)"
      by simp
    ultimately show False
      using a by blast
  qed
  then show "\<forall>c\<in>set s. sp c"
    by (simp add: dropWhile_eq_Nil_conv)
next
  assume "\<forall>c\<in>set s. sp c"
  then show "str_strip sp s = []"
    by (auto simp: str_strip_def dest: set_dropWhileD)
qed

lemma body_blank_iff:
  "body_len (body_strip sp b) = 0 \<longleftrightarrow>
     (case b of Bytes s \<Rightarrow> \<forall>c\<in>set s. isspace c | Text t \<Rightarrow> \<forall>c\<in>set t. sp c)"
  by (cases b) (simp_all add: strip_empty_iff str_strip_empty_iff)

lemma str_409: "str 409 = ''409''"
  by code_simp

subsection \<open>Requests that reach the transport\<close>

lemma headers_example:
  "\<exists>hs. headers example_externals (Http example_config None) ct ho = Inr hs"
  by (simp add: headers_def authorization_header_def Http_def example_config_def
      encode_ascii_def is_ascii_def Let_def)

lemma request_body_example:
  "request_body example_externals ContentType_Xml PyNone PyNone = Inr (PyStr [])"
  by (simp add: request_body_def)

lemma make_request_reached:
  assumes "headers ext self content_type header_overrides = Inr hs"
    and "request_body ext content_type params files = Inr body"
    and "strategy_http_do http_strategy http_verb (full_path self path) hs body
           = Inr (status, response_body)"
  shows "make_request ext http_strategy self http_verb path content_type params files
           header_overrides =
         (if is_error_status status then
            (case raise_exception_from_status status None of
               Inl e \<Rightarrow> Inl e | Inr u \<Rightarrow> Inr PyNone)
          else if body_len (body_strip (unicode_isspace ext) response_body) = 0
          then Inr (PyDict [])
          else if content_type = ContentType_Json then json_loads ext response_body
          else dict_from_xml ext response_body)"
  using assms by (simp add: make_request_def)

lemma make_request_raised:
  assumes "headers ext self content_type header_overrides = Inr hs"
    and "request_body ext content_type params files = Inr body"
    and "strategy_http_do http_strategy http_verb (full_path self path) hs body = Inl e"
  shows "make_request ext http_strategy self http_verb path content_type params files
           header_overrides =
         (if isinstance e Exception \<and> wrap_http_exceptions (self_config self) then
            (case strategy_handle_exception http_strategy e of
               Inl e' \<Rightarrow> Inl e'
             | Inr u \<Rightarrow> Inl (PyException [UnboundLocalError] ''status''))
          else Inl e)"
  using assms by (simp add: make_request_def split: sum.splits)

text \<open>
  Claim C1. For every status outside 200, 201, 204 and 422 the request raises the error of
  the fixed table, and \<open>UnexpectedError\<close> with the message \<open>Unexpected HTTP_RESPONSE\<close>
  followed by the status for a status the table does not list.
\<close>

theorem make_request_error_status:
  assumes "headers ext self content_type header_overrides = Inr hs"
    and "request_body ext content_type params files = Inr body"
    and "strategy_http_do http_strategy http_verb (full_path self path) hs body
           = Inr (status, response_body)"
    and "status \<notin> {200, 201, 204, 422}"
  shows "make_request ext http_strategy self http_verb path content_type params files
           header_overrides =
         Inl (if status = 401 then AuthenticationError
              else if status = 403 then AuthorizationError None
              else if status = 404 then NotFoundError
              else if status = 408 then RequestTimeoutError
              else if status = 426 then UpgradeRequiredError
              else if status = 429 then TooManyRequestsError
              else if status = 500 then ServerError
              else if status = 503 then ServiceUnavailableError
              else if status = 504 then GatewayTimeoutError
              else UnexpectedError (Inl (''Unexpected HTTP_RESPONSE '' @ str status)))"
proof -
  from assms(4) have "is_error_status status"
    by (simp add: is_error_status_def)
  with make_request_reached [OF assms(1-3)] show ?thesis
    by (simp add: raise_exception_from_status_def)
qed

theorem make_request_error_status_witness:
  "(409::int) \<notin> {200, 201, 204, 422}
   \<and> make_request example_externals (fixed_strategy (Inr (409, Bytes ''<conflict/>'')))
        (Http example_config None) ''GET'' ''/customers/1'' ContentType_Xml PyNone PyNone None
       = Inl (UnexpectedError (Inl ''Unexpected HTTP_RESPONSE 409''))
   \<and> make_request example_externals (fixed_strategy (Inr (404, Bytes [])))
        (Http example_config None) ''GET'' ''/customers/1'' ContentType_Xml PyNone PyNone None
       = Inl NotFoundError"
proof -
  obtain hs where hs:
    "headers example_externals (Http example_config None) ContentType_Xml None = Inr hs"
    using headers_example by blast
  have a: "strategy_http_do (fixed_strategy (Inr (409, Bytes ''<conflict/>''))) ''GET''
             (full_path (Http example_config None) ''/customers/1'') hs (PyStr [])
           = Inr (409, Bytes ''<conflict/>'')"
    by (simp add: fixed_strategy_def)
  have b: "strategy_http_do (fixed_strategy (Inr (404, Bytes []))) ''GET''
             (full_path (Http example_config None) ''/customers/1'') hs (PyStr [])
           = Inr (404, Bytes [])"
    by (simp add: fixed_strategy_def)
  have c: "(409::int) \<notin> {200, 201, 204, 422}" and d: "(404::int) \<notin> {200, 201, 204, 422}"
    by simp_all
  show ?thesis
    using make_request_error_status [OF hs request_body_example a c]
      make_request_error_status [OF hs request_body_example b d]
    apply (simp only: str_409 c simp_thms if_False)
    apply simp
    done
qed

text \<open>
  Claim C2. For the statuses 200, 201, 204 and 422, and only for these, the status raises
  no error: a body that is empty or holds whitespace only gives the empty mapping, any
  other body is decoded as JSON when the content type is JSON and as XML otherwise.
  Whitespace is what \<^verbatim>\<open>strip\<close> removes from a body of its kind: ASCII whitespace for
  \<^verbatim>\<open>bytes\<close>, Unicode whitespace for a \<^verbatim>\<open>str\<close>.
\<close>

theorem make_request_success_status:
  assumes "headers ext self content_type header_overrides = Inr hs"
    and "request_body ext content_type params files = Inr body"
    and "strategy_http_do http_strategy http_verb (full_path self path) hs body
           = Inr (status, response_body)"
  shows "(status \<in> {200, 201, 204, 422} \<longrightarrow>
            make_request ext http_strategy self http_verb path content_type params files
              header_overrides =
            (if (case response_body of
                   Bytes s \<Rightarrow> \<forall>c\<in>set s. isspace c
                 | Text t \<Rightarrow> \<forall>c\<in>set t. unicode_isspace ext c)
             then Inr (PyDict [])
             else if content_type = ContentType_Json then json_loads ext response_body
             else dict_from_xml ext response_body))
       \<and> (status \<notin> {200, 201, 204, 422} \<longrightarrow>
            (\<exists>e. raise_exception_from_status status None = Inl e
               \<and> make_request ext http_strategy self http_verb path content_type params files
                    header_overrides = Inl e))"
proof -
  have "is_error_status status \<longleftrightarrow> status \<notin> {200, 201, 204, 422}"
    by (simp add: is_error_status_def)
  moreover have "\<exists>e. raise_exception_from_status status None = Inl e"
    by (simp add: raise_exception_from_status_def)
  ultimately show ?thesis
    using make_request_reached [OF assms] by (auto simp: body_blank_iff)
qed

theorem make_request_success_status_witness:
  "make_request example_externals (fixed_strategy (Inr (422, Bytes ''<api-error-response/>'')))
     (Http example_config None) ''POST'' ''/customers'' ContentType_Xml PyNone PyNone None
     = Inr (PyDict [(''xml'', PyStr ''<api-error-response/>'')])
   \<and> make_request example_externals (fixed_strategy (Inr (200, Bytes '' '')))
     (Http example_config None) ''POST'' ''/customers'' ContentType_Xml PyNone PyNone None
     = Inr (PyDict [])
   \<and> make_request example_externals (fixed_strategy (Inr (200, Text [0xA0, 0x85, 0x1C])))
     (Http example_config None) ''POST'' ''/customers'' ContentType_Xml PyNone PyNone None
     = Inr (PyDict [])
   \<and> make_request example_externals (fixed_strategy (Inr (500, Bytes ''<error/>'')))
     (Http example_config None) ''POST'' ''/customers'' ContentType_Xml PyNone PyNone None
     = Inl ServerError"
proof -
  obtain hs where hs:
    "headers example_externals (Http example_config None) ContentType_Xml None = Inr hs"
    using headers_example by blast
  have a: "strategy_http_do (fixed_strategy (Inr (422, Bytes ''<api-error-response/>''))) ''POST''
             (full_path (Http example_config None) ''/customers'') hs (PyStr [])
           = Inr (422, Bytes ''<api-error-response/>'')"
    by (simp add: fixed_strategy_def)
  have b: "strategy_http_do (fixed_strategy (Inr (200, Bytes '' ''))) ''POST''
             (full_path (Http example_config None) ''/customers'') hs (PyStr [])
           = Inr (200, Bytes '' '')"
    by (simp add: fixed_strategy_def)
  have c: "strategy_http_do (fixed_strategy (Inr (500, Bytes ''<error/>''))) ''POST''
             (full_path (Http example_config None) ''/customers'') hs (PyStr [])
           = Inr (500, Bytes ''<error/>'')"
    by (simp add: fixed_strategy_def)
  have d: "strategy_http_do (fixed_strategy (Inr (200, Text [0xA0, 0x85, 0x1C]))) ''POST''
             (full_path (Http example_config None) ''/customers'') hs (PyStr [])
           = Inr (200, Text [0xA0, 0x85, 0x1C])"
    by (simp add: fixed_strategy_def)
  show ?thesis
    using make_request_success_status [OF hs request_body_example a]
      make_request_success_status [OF hs request_body_example b]
      make_request_success_status [OF hs request_body_example c]
      make_request_success_status [OF hs request_body_example d]
    by (simp add: isspace_def example_externals_def ContentType_Xml_def ContentType_Json_def
        raise_exception_from_status_def unicode_whitespace_def)
qed

text \<open>
  Claim C3. When the transport raises an exception and the configuration does not wrap
  exceptions, the exception propagates unchanged; when it wraps them, the exception is
  raised again as the first matching error of the order read timeout, connect timeout,
  connection failure, HTTP error, any other timeout, anything else. An exception is an
  instance of \<^verbatim>\<open>Exception\<close>; a raised value that is none, such as
  \<^verbatim>\<open>KeyboardInterrupt\<close>, is not caught and propagates unchanged.
\<close>

theorem make_request_transport_exception:
  assumes "headers ext self content_type header_overrides = Inr hs"
    and "request_body ext content_type params files = Inr body"
    and "strategy_http_do http_strategy http_verb (full_path self path) hs body = Inl e"
  shows "(\<not> wrap_http_exceptions (self_config self) \<longrightarrow>
            make_request ext http_strategy self http_verb path content_type params files
              header_overrides = Inl e)
       \<and> (wrap_http_exceptions (self_config self) \<and> isinstance e Exception
            \<and> strategy_handle_exception http_strategy = handle_exception \<longrightarrow>
            make_request ext http_strategy self http_verb path content_type params files
              header_overrides =
            Inl (if isinstance e ReadTimeout then ReadTimeoutError e
                 else if isinstance e ConnectTimeout then ConnectTimeoutError e
                 else if isinstance e Requests_ConnectionError then ConnectionError e
                 else if isinstance e HTTPError then InvalidResponseError e
                 else if isinstance e Timeout then TimeoutError e
                 else UnexpectedError (Inr e)))
       \<and> (\<not> isinstance e Exception \<longrightarrow>
            make_request ext http_strategy self http_verb path content_type params files
              header_overrides = Inl e)"
  using make_request_raised [OF assms] by (simp add: handle_exception_def)

theorem make_request_transport_exception_witness:
  "make_request example_externals
     (fixed_strategy (Inl (PyException [ConnectTimeout, Requests_ConnectionError, Timeout] ''timed out'')))
     (Http example_config None) ''GET'' ''/customers/1'' ContentType_Xml PyNone PyNone None
     = Inl (ConnectTimeoutError
         (PyException [ConnectTimeout, Requests_ConnectionError, Timeout] ''timed out''))
   \<and> make_request example_externals
     (fixed_strategy (Inl (PyException [OtherClass ''ValueError''] ''bad'')))
     (Http example_config None) ''GET'' ''/customers/1'' ContentType_Xml PyNone PyNone None
     = Inl (UnexpectedError (Inr (PyException [OtherClass ''ValueError''] ''bad'')))
   \<and> make_request example_externals
     (fixed_strategy (Inl (PyException [Requests_ConnectionError] ''refused'')))
     (Http (example_config\<lparr>wrap_http_exceptions := False\<rparr>) None)
     ''GET'' ''/customers/1'' ContentType_Xml PyNone PyNone None
     = Inl (PyException [Requests_ConnectionError] ''refused'')
   \<and> make_request example_externals
     (fixed_strategy (Inl (PyException [KeyboardInterrupt] [])))
     (Http example_config None) ''GET'' ''/customers/1'' ContentType_Xml PyNone PyNone None
     = Inl (PyException [KeyboardInterrupt] [])"
proof -
  obtain hs where hs:
    "headers example_externals (Http example_config None) ContentType_Xml None = Inr hs"
    using headers_example by blast
  obtain hs' where hs':
    "headers example_externals (Http (example_config\<lparr>wrap_http_exceptions := False\<rparr>) None)
       ContentType_Xml None = Inr hs'"
    by (simp add: headers_def authorization_header_def Http_def example_config_def
        encode_ascii_def is_ascii_def Let_def)
  have a: "strategy_http_do
             (fixed_strategy (Inl (PyException [ConnectTimeout, Requests_ConnectionError, Timeout] ''timed out'')))
             ''GET'' (full_path (Http example_config None) ''/customers/1'') hs (PyStr [])
           = Inl (PyException [ConnectTimeout, Requests_ConnectionError, Timeout] ''timed out'')"
    by (simp add: fixed_strategy_def)
  have b: "strategy_http_do (fixed_strategy (Inl (PyException [Requests_ConnectionError] ''refused'')))
             ''GET'' (full_path (Http (example_config\<lparr>wrap_http_exceptions := False\<rparr>) None)
                ''/customers/1'') hs' (PyStr [])
           = Inl (PyException [Requests_ConnectionError] ''refused'')"
    by (simp add: fixed_strategy_def)
  have c: "strategy_http_do (fixed_strategy (Inl (PyException [KeyboardInterrupt] [])))
             ''GET'' (full_path (Http example_config None) ''/customers/1'') hs (PyStr [])
           = Inl (PyException [KeyboardInterrupt] [])"
    by (simp add: fixed_strategy_def)
  have d: "strategy_http_do (fixed_strategy (Inl (PyException [OtherClass ''ValueError''] ''bad'')))
             ''GET'' (full_path (Http example_config None) ''/customers/1'') hs (PyStr [])
           = Inl (PyException [OtherClass ''ValueError''] ''bad'')"
    by (simp add: fixed_strategy_def)
  show ?thesis
    using make_request_transport_exception [OF hs request_body_example a]
      make_request_transport_exception [OF hs' request_body_example b]
      make_request_transport_exception [OF hs request_body_example c]
      make_request_transport_exception [OF hs request_body_example d]
    by (simp add: fixed_strategy_def Http_def example_config_def)
qed

text \<open>
  Claim C5, as the code has it. For a response with status 403 the request raises
  \<open>AuthorizationError\<close> without a message, whatever the response holds:
  \<open>raise_exception_from_status\<close> gives the error the message it is called with, and
  the request calls it with none.
\<close>

theorem make_request_403_no_message:
  assumes "headers ext self content_type header_overrides = Inr hs"
    and "request_body ext content_type params files = Inr body"
    and "strategy_http_do http_strategy http_verb (full_path self path) hs body
           = Inr (403, response_body)"
  shows "make_request ext http_strategy self http_verb path content_type params files
           header_overrides = Inl (AuthorizationError None)
       \<and> raise_exception_from_status 403 message = Inl (AuthorizationError message)"
  using make_request_reached [OF assms]
  by (simp add: is_error_status_def raise_exception_from_status_def)

theorem make_request_403_no_message_witness:
  "make_request example_externals
     (fixed_strategy (Inr (403, Bytes ''<message>Forbidden</message>'')))
     (Http example_config None) ''GET'' ''/customers/1'' ContentType_Xml PyNone PyNone None
     = Inl (AuthorizationError None)
   \<and> raise_exception_from_status 403 (Some ''Forbidden'')
     = Inl (AuthorizationError (Some ''Forbidden''))"
proof -
  obtain hs where hs:
    "headers example_externals (Http example_config None) ContentType_Xml None = Inr hs"
    using headers_example by blast
  have a: "strategy_http_do (fixed_strategy (Inr (403, Bytes ''<message>Forbidden</message>'')))
             ''GET'' (full_path (Http example_config None) ''/customers/1'') hs (PyStr [])
           = Inr (403, Bytes ''<message>Forbidden</message>'')"
    by (simp add: fixed_strategy_def)
  show ?thesis
    using make_request_403_no_message [OF hs request_body_example a, of "Some ''Forbidden''"]
    by simp
qed

text \<open>
  Claim C5 as stated fails: the error raised for a 403 response
  whose body holds a message carries no message.
\<close>

theorem make_request_403_message_counterexample:
  "make_request example_externals
     (fixed_strategy (Inr (403, Bytes ''<message>Forbidden</message>'')))
     (Http example_config None) ''GET'' ''/customers/1'' ContentType_Xml PyNone PyNone None
     \<noteq> Inl (AuthorizationError (Some ''<message>Forbidden</message>''))
   \<and> make_request example_externals
     (fixed_strategy (Inr (403, Bytes ''<message>Forbidden</message>'')))
     (Http example_config None) ''GET'' ''/customers/1'' ContentType_Xml PyNone PyNone None
     = Inl (AuthorizationError None)"
proof -
  obtain hs where hs:
    "headers example_externals (Http example_config None) ContentType_Xml None = Inr hs"
    using headers_example by blast
  have a: "strategy_http_do (fixed_strategy (Inr (403, Bytes ''<message>Forbidden</message>'')))
             ''GET'' (full_path (Http example_config None) ''/customers/1'') hs (PyStr [])
           = Inr (403, Bytes ''<message>Forbidden</message>'')"
    by (simp add: fixed_strategy_def)
  show ?thesis
    using make_request_reached [OF hs request_body_example a]
    by (simp add: is_error_status_def raise_exception_from_status_def)
qed

text \<open>
  Claim C9. \<open>handle_exception\<close> raises on every exception, so when exceptions are
  wrapped and the transport raises, the request never goes on to read the unbound
  status: it raises what the handler raises, or, for a raised value that is no instance
  of \<^verbatim>\<open>Exception\<close> and is not caught, that value.
\<close>

theorem handle_exception_always_raises:
  assumes "headers ext self content_type header_overrides = Inr hs"
    and "request_body ext content_type params files = Inr body"
    and "strategy_http_do http_strategy http_verb (full_path self path) hs body = Inl e"
    and "wrap_http_exceptions (self_config self)"
    and "strategy_handle_exception http_strategy = handle_exception"
  shows "(\<exists>e'. handle_exception x = Inl e')
       \<and> (isinstance e Exception \<longrightarrow>
            (\<exists>e'. handle_exception e = Inl e'
               \<and> make_request ext http_strategy self http_verb path content_type params files
                    header_overrides = Inl e'))
       \<and> (\<not> isinstance e Exception \<longrightarrow>
            make_request ext http_strategy self http_verb path content_type params files
              header_overrides = Inl e)
       \<and> make_request ext http_strategy self http_verb path content_type params files
            header_overrides \<noteq> Inl (PyException [UnboundLocalError] ''status'')"
proof -
  have r: "\<And>x. \<exists>e'. handle_exception x = Inl e' \<and> e' \<noteq> PyException [UnboundLocalError] ''status''"
    by (simp add: handle_exception_def)
  from r [of e] obtain e' where e': "handle_exception e = Inl e'"
    "e' \<noteq> PyException [UnboundLocalError] ''status''"
    by blast
  have u: "isinstance (PyException [UnboundLocalError] ''status'') Exception"
    by simp
  show ?thesis
  proof (cases "isinstance e Exception")
    case True
    with make_request_raised [OF assms(1-3)] assms(4,5) e'
    have "make_request ext http_strategy self http_verb path content_type params files
            header_overrides = Inl e'"
      by simp
    with True e' r [of x] show ?thesis
      by auto
  next
    case False
    with make_request_raised [OF assms(1-3)]
    have "make_request ext http_strategy self http_verb path content_type params files
            header_overrides = Inl e"
      by simp
    moreover from False u have "e \<noteq> PyException [UnboundLocalError] ''status''"
      by auto
    ultimately show ?thesis
      using False r [of x] by auto
  qed
qed

theorem handle_exception_always_raises_witness:
  "(\<exists>e'. handle_exception (PyException [OtherClass ''ValueError''] ''bad'') = Inl e')
   \<and> make_request example_externals
        (fixed_strategy (Inl (PyException [OtherClass ''ValueError''] ''bad'')))
        (Http example_config None) ''GET'' ''/customers/1'' ContentType_Xml PyNone PyNone None
      = Inl (UnexpectedError (Inr (PyException [OtherClass ''ValueError''] ''bad'')))
   \<and> make_request example_externals
        (fixed_strategy (Inl (PyException [OtherClass ''ValueError''] ''bad'')))
        (Http example_config None) ''GET'' ''/customers/1'' ContentType_Xml PyNone PyNone None
      \<noteq> Inl (PyException [UnboundLocalError] ''status'')"
proof -
  obtain hs where hs:
    "headers example_externals (Http example_config None) ContentType_Xml None = Inr hs"
    using headers_example by blast
  have a: "strategy_http_do (fixed_strategy (Inl (PyException [OtherClass ''ValueError''] ''bad'')))
             ''GET'' (full_path (Http example_config None) ''/customers/1'') hs (PyStr [])
           = Inl (PyException [OtherClass ''ValueError''] ''bad'')"
    by (simp add: fixed_strategy_def)
  have w: "wrap_http_exceptions (self_config (Http example_config None))"
    by (simp add: Http_def example_config_def)
  have h: "strategy_handle_exception
             (fixed_strategy (Inl (PyException [OtherClass ''ValueError''] ''bad'')))
           = handle_exception"
    by (simp add: fixed_strategy_def)
  show ?thesis
    using handle_exception_always_raises [OF hs request_body_example a w h,
        of "PyException [OtherClass ''ValueError''] ''bad''"]
    by (simp add: handle_exception_def)
qed

text \<open>The branch that reads the unbound status is part of the model: a strategy whose
  handler returns reaches it.\<close>

lemma make_request_silent_handler:
  "make_request example_externals (silent_strategy (PyException [Timeout] ''timed out''))
     (Http example_config None) ''GET'' ''/customers/1'' ContentType_Xml PyNone PyNone None
   = Inl (PyException [UnboundLocalError] ''status'')"
proof -
  obtain hs where hs:
    "headers example_externals (Http example_config None) ContentType_Xml None = Inr hs"
    using headers_example by blast
  have a: "strategy_http_do (silent_strategy (PyException [Timeout] ''timed out''))
             ''GET'' (full_path (Http example_config None) ''/customers/1'') hs (PyStr [])
           = Inl (PyException [Timeout] ''timed out'')"
    by (simp add: silent_strategy_def)
  show ?thesis
    using make_request_raised [OF hs request_body_example a]
    by (simp add: silent_strategy_def Http_def example_config_def)
qed

lemma Http_strategy_handler:
  "strategy_handle_exception (Http_strategy tr h) = handle_exception"
  "strategy_http_do (Http_strategy tr h) = http_do tr h"
  by (simp_all add: Http_strategy_def)

text \<open>
  Claim C10. Whatever the base initialiser does, the constructor of \<open>BusinessDetails\<close>
  leaves \<open>address_details\<close> an \<open>AddressDetails\<close> instance, built from the value of
  the key \<open>address\<close>, or from the empty mapping when the key is absent.
\<close>

theorem BusinessDetails_address_details:
  "BusinessDetails_init AttributeGetter_init AddressDetails attributes ''address_details'' =
     Some (Instance (AddressDetails
       (case map_of attributes ''address'' of None \<Rightarrow> PyDict [] | Some v \<Rightarrow> v)))"
  by (simp add: BusinessDetails_init_def dict_get_def)

lemma BusinessDetails_overwrites_copied:
  "BusinessDetails_init copy_attributes AddressDetails
     [(''legal_name'', PyStr ''Acme''), (''address_details'', PyStr ''copied'')] ''address_details''
     = Some (Instance (AddressDetails (PyDict [])))
   \<and> BusinessDetails_init copy_attributes AddressDetails
     [(''legal_name'', PyStr ''Acme''), (''address_details'', PyStr ''copied'')] ''legal_name''
     = Some (Plain (PyStr ''Acme''))
   \<and> copy_attributes
     [(''legal_name'', PyStr ''Acme''), (''address_details'', PyStr ''copied'')] Map.empty
     ''address_details'' = Some (Plain (PyStr ''copied'') :: 'a attr)"
  by (simp add: BusinessDetails_init_def dict_get_def copy_attributes_def)

lemma not_truthy_iff: "\<not> truthy p \<longleftrightarrow> p = PyNone \<or> p = PyStr [] \<or> p = PyDict []"
  by (cases p) simp_all

text \<open>
  Claim C7, as the code has it. For the XML content type the body is the serialised
  parameters, or the empty string when the parameters are absent or empty. For every other
  content type the body is the parameters unchanged when no files are given, and the pair
  of parameters and files when files are given, whether the content type is multipart or
  not.
\<close>

theorem request_body_cases:
  "(content_type = ContentType_Xml \<and> (params = PyNone \<or> params = PyStr [] \<or> params = PyDict [])
      \<longrightarrow> request_body ext content_type params files = Inr (PyStr []))
   \<and> (content_type = ContentType_Xml \<and> params \<noteq> PyNone \<and> params \<noteq> PyStr [] \<and> params \<noteq> PyDict []
      \<longrightarrow> request_body ext content_type params files =
          (case xml_from_dict ext params of Inl e \<Rightarrow> Inl e | Inr x \<Rightarrow> Inr (PyStr x)))
   \<and> (content_type \<noteq> ContentType_Xml \<and> files = PyNone
      \<longrightarrow> request_body ext content_type params files = Inr params)
   \<and> (content_type \<noteq> ContentType_Xml \<and> files \<noteq> PyNone
      \<longrightarrow> request_body ext content_type params files = Inr (PyTuple params files))
   \<and> ContentType_Json \<noteq> ContentType_Xml
   \<and> ContentType_Multipart \<noteq> ContentType_Xml"
  using not_truthy_iff [of params]
  by (auto simp: request_body_def ContentType_Json_def ContentType_Xml_def
      ContentType_Multipart_def)

theorem request_body_cases_witness:
  "request_body example_externals ContentType_Xml PyNone PyNone = Inr (PyStr [])
   \<and> request_body example_externals ContentType_Xml (PyDict [(''customer'', PyDict [])]) PyNone
       = Inr (PyStr ''<params/>'')
   \<and> request_body example_externals ContentType_Json (PyStr ''{}'') PyNone = Inr (PyStr ''{}'')
   \<and> request_body example_externals ContentType_Multipart (PyDict [(''kind'', PyStr ''evidence'')])
        (PyDict [(''file'', PyStr ''data'')])
       = Inr (PyTuple (PyDict [(''kind'', PyStr ''evidence'')]) (PyDict [(''file'', PyStr ''data'')]))"
  using request_body_cases [of ContentType_Xml PyNone example_externals PyNone]
    request_body_cases [of ContentType_Xml "PyDict [(''customer'', PyDict [])]"
      example_externals PyNone]
    request_body_cases [of ContentType_Json "PyStr ''{}''" example_externals PyNone]
    request_body_cases [of ContentType_Multipart "PyDict [(''kind'', PyStr ''evidence'')]"
      example_externals "PyDict [(''file'', PyStr ''data'')]"]
  by (simp add: example_externals_def)

text \<open>
  Claim C7 as stated fails: with the JSON content type and files
  given, the body is the pair and not the parameters.
\<close>

theorem request_body_json_files_counterexample:
  "request_body example_externals ContentType_Json (PyStr ''{}'')
     (PyDict [(''file'', PyStr ''data'')])
     = Inr (PyTuple (PyStr ''{}'') (PyDict [(''file'', PyStr ''data'')]))
   \<and> request_body example_externals ContentType_Json (PyStr ''{}'')
     (PyDict [(''file'', PyStr ''data'')])
     \<noteq> Inr (PyStr ''{}'')"
  by (simp add: request_body_def ContentType_Json_def ContentType_Xml_def)



text \<open>
  Without the hypothesis of the theorem, when \<^verbatim>\<open>http_do\<close> is called on an object that was
  given an environment other than the one of its configuration, the test reads the
  environment of the configuration and the certificate is the one of the object's
  environment.
\<close>

lemma http_do_verify_other_environment:
  "req_verify (http_do_args example_transport
      (Http (example_config\<lparr>environment := ''development''\<rparr>) (Some ''production''))
      ''GET'' ''/customers/1'' Map.empty PyNone) = Verify_False
   \<and> req_verify (http_do_args example_transport (Http example_config (Some ''production''))
        ''GET'' ''/customers/1'' Map.empty PyNone) = Verify_With ''production.crt''"
  by (simp add: http_do_args_def Http_def example_transport_def example_config_def)

subsection \<open>Base64\<close>

lemma isspace_code: "isspace c \<Longrightarrow> (of_char c :: nat) \<le> 32"
  by (auto simp: isspace_def)

lemma b64_char_code: "32 < (of_char (b64_char n) :: nat)"
  by (auto simp: b64_char_def)

lemma b64_char_not_space: "\<not> isspace (b64_char n)"
  using isspace_code [of "b64_char n"] b64_char_code [of n] by auto

lemma pad_not_space: "\<not> isspace CHR ''=''"
  by (simp add: isspace_def)

lemma b64encode_not_space: "c \<in> set (b64encode s) \<Longrightarrow> \<not> isspace c"
  by (induction s rule: b64encode.induct)
     (auto simp: Let_def b64_char_not_space pad_not_space)

lemma isspace_newline: "isspace newline"
  by (simp add: isspace_def newline_def)

lemma b64encode_no_newline: "newline \<notin> set (b64encode s)"
  using b64encode_not_space isspace_newline by blast

lemma b64encode_append:
  "length xs mod 3 = 0 \<Longrightarrow> b64encode (xs @ ys) = b64encode xs @ b64encode ys"
  by (induction xs rule: b64encode.induct) (simp_all add: Let_def)

lemma filter_b64encode: "filter (\<lambda>c. c \<noteq> newline) (b64encode s) = b64encode s"
  using b64encode_no_newline [of s] by (simp add: filter_id_conv) metis

lemma filter_encodebytes: "filter (\<lambda>c. c \<noteq> newline) (encodebytes s) = b64encode s"
proof (induction s rule: encodebytes.induct)
  case (1 s)
  show ?case
  proof (cases "s = []")
    case True
    then show ?thesis
      by (subst encodebytes.simps) simp
  next
    case False
    with "1" have ih: "filter (\<lambda>c. c \<noteq> newline) (encodebytes (drop 57 s)) = b64encode (drop 57 s)"
      by simp
    have "b64encode (take 57 s) @ b64encode (drop 57 s) = b64encode s"
    proof (cases "57 \<le> length s")
      case True
      then have "length (take 57 s) mod 3 = 0"
        by simp
      from b64encode_append [OF this, of "drop 57 s"] show ?thesis
        by simp
    next
      case False
      then show ?thesis
        by simp
    qed
    with False ih show ?thesis
      by (subst encodebytes.simps) (simp add: filter_b64encode)
  qed
qed

lemma strip_no_space: "\<forall>c\<in>set s. \<not> isspace c \<Longrightarrow> strip s = s"
proof -
  assume a: "\<forall>c\<in>set s. \<not> isspace c"
  then have "dropWhile isspace s = s"
    by (cases s) simp_all
  moreover from a have "dropWhile isspace (rev s) = rev s"
    by (cases "rev s") (simp, metis dropWhile.simps(2) list.set_intros(1) set_rev)
  ultimately show ?thesis
    by (simp add: strip_def lstrip_def rstrip_def)
qed

lemma basic_value: "strip (replace (encodebytes s) newline []) = b64encode s"
  using strip_no_space [of "b64encode s"] b64encode_not_space [of _ s]
  by (simp add: replace_newline_filter filter_encodebytes)

lemma b64encode_example:
  "b64encode ''public:private'' = ''cHVibGljOnByaXZhdGU=''"
  "b64encode ''id:secret'' = ''aWQ6c2VjcmV0''"
  by (simp_all add: b64_char_def Let_def char_of_def bit_Suc_0_iff)

text \<open>
  Claim C4, as the code has it. One scheme gives the header, client credentials before
  access token before key pair. For credentials that are ASCII the value is \<open>Basic\<close>
  and the Base64 of \<open>client_id:client_secret\<close>, or \<open>Bearer\<close> and the access token
  as it is, or \<open>Basic\<close> and the Base64 of \<open>public_key:private_key\<close>. The Base64
  text is the output of \<open>encodebytes\<close> with its line feeds removed and its ends
  trimmed, and has no line feed and no whitespace; the access token is not touched.
\<close>

theorem authorization_header_scheme:
  "(has_client_credentials (self_config self)
      \<and> is_ascii (client_id (self_config self)) \<and> is_ascii (client_secret (self_config self))
      \<longrightarrow> authorization_header self =
            Inr (''Basic '' @ b64encode
              (client_id (self_config self) @ '':'' @ client_secret (self_config self))))
   \<and> (\<not> has_client_credentials (self_config self) \<and> has_access_token (self_config self)
      \<and> is_ascii (access_token (self_config self))
      \<longrightarrow> authorization_header self = Inr (''Bearer '' @ access_token (self_config self)))
   \<and> (\<not> has_client_credentials (self_config self) \<and> \<not> has_access_token (self_config self)
      \<and> is_ascii (public_key (self_config self)) \<and> is_ascii (private_key (self_config self))
      \<longrightarrow> authorization_header self =
            Inr (''Basic '' @ b64encode
              (public_key (self_config self) @ '':'' @ private_key (self_config self))))
   \<and> b64encode s = strip (replace (encodebytes s) newline [])
   \<and> newline \<notin> set (b64encode s)
   \<and> strip (b64encode s) = b64encode s"
proof -
  have "strip (b64encode s) = b64encode s"
    using strip_no_space [of "b64encode s"] b64encode_not_space [of _ s] by blast
  then show ?thesis
    by (simp add: authorization_header_def encode_ascii_def basic_value b64encode_no_newline)
qed

theorem authorization_header_scheme_witness:
  "authorization_header (Http example_config None) = Inr ''Basic cHVibGljOnByaXZhdGU=''
   \<and> authorization_header
       (Http (example_config\<lparr>has_access_token := True, access_token := ''token''\<rparr>) None)
     = Inr ''Bearer token''
   \<and> authorization_header
       (Http (example_config\<lparr>has_client_credentials := True, has_access_token := True,
          client_id := ''id'', client_secret := ''secret'', access_token := ''token''\<rparr>) None)
     = Inr ''Basic aWQ6c2VjcmV0''"
proof -
  have a: "authorization_header (Http example_config None)
             = Inr (''Basic '' @ b64encode ''public:private'')"
    using authorization_header_scheme [of "Http example_config None" "[]"]
    by (simp add: Http_def example_config_def is_ascii_def del: b64encode.simps)
  have b: "authorization_header
             (Http (example_config\<lparr>has_access_token := True, access_token := ''token''\<rparr>) None)
           = Inr ''Bearer token''"
    using authorization_header_scheme
      [of "Http (example_config\<lparr>has_access_token := True, access_token := ''token''\<rparr>) None" "[]"]
    by (simp add: Http_def example_config_def is_ascii_def del: b64encode.simps)
  have c: "authorization_header
             (Http (example_config\<lparr>has_client_credentials := True, has_access_token := True,
                client_id := ''id'', client_secret := ''secret'', access_token := ''token''\<rparr>) None)
           = Inr (''Basic '' @ b64encode ''id:secret'')"
    using authorization_header_scheme
      [of "Http (example_config\<lparr>has_client_credentials := True, has_access_token := True,
          client_id := ''id'', client_secret := ''secret'', access_token := ''token''\<rparr>) None" "[]"]
    by (simp add: Http_def example_config_def is_ascii_def del: b64encode.simps)
  from a b c show ?thesis
    unfolding b64encode_example by simp
qed

text \<open>
  Claim C4 as stated fails for the access token: a line feed
  inside the token and a space at its end stay in the header value.
\<close>

theorem authorization_header_bearer_counterexample:
  "authorization_header
     (Http (example_config\<lparr>has_access_token := True,
        access_token := ''to'' @ [newline] @ ''ken ''\<rparr>) None)
     = Inr (''Bearer to'' @ [newline] @ ''ken '')
   \<and> authorization_header
     (Http (example_config\<lparr>has_access_token := True,
        access_token := ''to'' @ [newline] @ ''ken ''\<rparr>) None)
     \<noteq> Inr ''Bearer token''"
  by (simp add: authorization_header_def Http_def example_config_def encode_ascii_def
      is_ascii_def newline_def)

end
